theory Spec2Isabelle
  imports Complex_Main "HOL-Library.Sublist"
begin

section \<open>ZHA channels: base classes (homeassistant/components/zha/core/channels/base.py)\<close>

text \<open>
  The module wraps one Zigbee cluster of a device in a channel object. The cluster, the
  channel pool, the dispatcher and the helper functions are collaborators whose code is not
  part of the module. Their observable calls are recorded, in order, in a trace of events;
  what they answer is an oracle that reads the trace up to and including the call, so an
  answer may depend on everything that happened before. Exceptions are values: every
  operation returns \<open>Inl ex\<close> when the Python raises \<open>ex\<close>, together with the trace
  as it stands at the raise.
\<close>

subsection \<open>Values, exceptions, events\<close>

datatype exn =
    DeliveryError string
  | TimeoutError
  | AttributeError string
  | IndexError
  | OtherError string

text \<open>The handler \<^verbatim>\<open>except (zigpy.exceptions.DeliveryError, asyncio.TimeoutError)\<close>.\<close>

fun is_delivery_or_timeout :: "exn \<Rightarrow> bool" where
  "is_delivery_or_timeout (DeliveryError _) = True"
| "is_delivery_or_timeout TimeoutError = True"
| "is_delivery_or_timeout _ = False"

datatype pyval =
    PNone
  | PBool bool
  | PInt int
  | PStr string
  | PList "pyval list"
  | PDict "(string \<times> pyval) list"
  | PExn exn

text \<open>An attribute is named by its numeric id or by its symbolic name.\<close>

datatype attr_ref = AttrId nat | AttrName string

type_synonym kwds = "(string \<times> pyval) list"

text \<open>The messages handed to \<^verbatim>\<open>self.debug\<close>, one constructor per call site.\<close>

datatype log_msg =
    Bound string pyval
  | FailedToBind string exn
  | Reporting attr_ref string int int int pyval
  | FailedReporting attr_ref string exn
  | FinishedConfiguration
  | SkippingConfiguration
  | InitializingChannel bool
  | ExecutedCommand string "pyval list" kwds pyval
  | CommandFailed string exn

datatype event =
    AddListener
  | ClusterBind
  | ClusterConfigureReporting attr_ref int int int "int option"
  | SafeRead "attr_ref list" bool bool "int option"
  | SleepUniform rat rat
  | Debug log_msg
  | SendSignal string "pyval list"
  | ZhaSendEvent string nat string pyval

type_synonym trace = "event list"

text \<open>
  \<open>ClusterConfigureReporting attr min max change m\<close> is the call
  \<^verbatim>\<open>cluster.configure_reporting(attr, min, max, change, **kwargs)\<close>, where \<open>m\<close> is the
  \<^verbatim>\<open>manufacturer\<close> keyword (\<open>None\<close>: the keyword is not passed).
  \<open>SafeRead attrs allow_cache only_cache m\<close> is the call of the helper
  \<^verbatim>\<open>safe_read\<close>. \<open>SleepUniform lo hi\<close> is \<^verbatim>\<open>asyncio.sleep(uniform(lo, hi))\<close>.
  \<open>ZhaSendEvent unique_id cluster_id command args\<close> is the payload given to the pool's
  \<^verbatim>\<open>zha_send_event\<close>.
\<close>

subsection \<open>Collaborators\<close>

type_synonym command_fn = "pyval list \<Rightarrow> kwds \<Rightarrow> trace \<Rightarrow> (exn + pyval) \<times> trace"

record command =
  cmd_name :: string
  cmd_call :: command_fn

datatype pyobj = Partial command_fn | Method command_fn | Plain pyval

record cluster =
  cluster_id :: nat
  ep_attribute :: string
  is_server :: bool
  attributes :: "nat \<rightharpoonup> string"
  server_commands :: "(nat \<rightharpoonup> string \<times> pyval) option"
  namespace :: "string \<rightharpoonup> pyobj"
  bind_reply :: "trace \<Rightarrow> exn + pyval list"
  configure_reporting_reply :: "trace \<Rightarrow> exn + pyval"

text \<open>
  \<open>attributes\<close> maps an attribute id to the first component of zigpy's entry, its name;
  \<open>server_commands\<close> is zigpy's table from a command id to a tuple that starts with the
  command's name, or \<open>None\<close> when the cluster has no table; \<open>namespace\<close> is what
  \<^verbatim>\<open>getattr(cluster, name)\<close> finds. A callable of the cluster is either an object that
  accepts the assignment of an attribute (\<open>Partial\<close>: a \<^verbatim>\<open>functools.partial\<close>, which is
  what zigpy returns for the commands of a cluster, or a plain function) or a bound method
  (\<open>Method\<close>: \<^verbatim>\<open>bind\<close>, \<^verbatim>\<open>configure_reporting\<close> and \<^verbatim>\<open>add_listener\<close>, which the
  module calls on the cluster, are of this kind). Python refuses the assignment of an
  attribute to a bound method with \<^verbatim>\<open>AttributeError\<close>. \<open>Plain\<close> is a value that is not
  callable. A \<open>command\<close> is a callable together with its \<^verbatim>\<open>__name__\<close>, which the body of
  \<^verbatim>\<open>decorate_command\<close> reads.
\<close>

record pool =
  pool_id :: string
  pool_unique_id :: string
  nwk :: nat
  manufacturer_code :: "int option"
  skip_configuration :: bool

text \<open>
  Names imported from \<^verbatim>\<open>..const\<close> and \<^verbatim>\<open>..helpers\<close>. Their definitions are not in the
  module, so they are parameters of the model. \<open>safe_read_reply\<close> is the dictionary the
  helper \<^verbatim>\<open>safe_read\<close> returns (or the exception it raises) after the recorded call.
\<close>

record env =
  REPORT_CONFIG_DEFAULT :: "int \<times> int \<times> int"
  REPORT_CONFIG_MIN_INT :: int
  REPORT_CONFIG_MAX_INT :: int
  REPORT_CONFIG_RPT_CHANGE :: int
  CHANNEL_EVENT_RELAY :: string
  CHANNEL_ZDO :: string
  ATTR_ATTRIBUTE_ID :: string
  ATTR_ATTRIBUTE_NAME :: string
  ATTR_VALUE :: string
  LogMixin_members :: "string list"
  get_attr_id_by_name :: "cluster \<Rightarrow> string \<Rightarrow> nat option"
  safe_read_reply :: "trace \<Rightarrow> exn + (attr_ref \<rightharpoonup> pyval)"

text \<open>
  Modelled from the spec: the constant \<^verbatim>\<open>SIGNAL_ATTR_UPDATED\<close> of \<^verbatim>\<open>..const\<close>, which is
  not in the module. The spec names the signal \<^verbatim>\<open>{uniqueId}_attribute_updated\<close>.
\<close>

definition SIGNAL_ATTR_UPDATED :: string where
  "SIGNAL_ATTR_UPDATED = ''attribute_updated''"

subsection \<open>ChannelStatus\<close>

datatype ChannelStatus = CREATED | CONFIGURED | INITIALIZED


subsection \<open>decorate\_command\<close>

definition decorate_command :: "'c \<Rightarrow> command \<Rightarrow> command" where
  "decorate_command channel command =
     \<lparr> cmd_name = cmd_name command,
       cmd_call = (\<lambda>args kwds t.
         case cmd_call command args kwds t of
           (Inr result, t1) \<Rightarrow>
             (Inr result, t1 @ [Debug (ExecutedCommand (cmd_name command) args kwds result)])
         | (Inl ex, t1) \<Rightarrow>
             if is_delivery_or_timeout ex
             then (Inr (PExn ex), t1 @ [Debug (CommandFailed (cmd_name command) ex)])
             else (Inl ex, t1)) \<rparr>"

subsection \<open>ZigbeeChannel\<close>

datatype channel_class = ZigbeeChannel | AttributeListeningChannel | EventRelayChannel

record report_entry =
  attr :: attr_ref
  config :: "int \<times> int \<times> int"

record channel =
  kind :: channel_class
  channel_name :: string
  ch_pool :: pool
  generic_id :: string
  cluster :: cluster
  ident :: string
  unique_id :: string
  report_config :: "report_entry list"
  status :: ChannelStatus
  value_attribute :: "nat option"

text \<open>The format \<^verbatim>\<open>{n:04x}\<close>: lower-case hexadecimal, padded with zeros to four digits.\<close>

definition hex_digit :: "nat \<Rightarrow> char" where
  "hex_digit d = ''0123456789abcdef'' ! (d mod 16)"

fun hex_of :: "nat \<Rightarrow> string" where
  "hex_of n = (if n < 16 then [hex_digit n] else hex_of (n div 16) @ [hex_digit (n mod 16)])"

declare hex_of.simps [simp del]

definition format_04x :: "nat \<Rightarrow> string" where
  "format_04x n = replicate (4 - length (hex_of n)) (CHR ''0'') @ hex_of n"

text \<open>\<^verbatim>\<open>s.replace("-", ":")\<close>\<close>

definition replace_dash :: "string \<Rightarrow> string" where
  "replace_dash s = map (\<lambda>c. if c = CHR ''-'' then CHR '':'' else c) s"

text \<open>
  \<^verbatim>\<open>ZigbeeChannel.__init__\<close>. The class attributes \<^verbatim>\<open>CHANNEL_NAME\<close> and
  \<^verbatim>\<open>REPORT_CONFIG\<close> of the class being instantiated are arguments.
\<close>

definition ZigbeeChannel_init ::
  "channel_class \<Rightarrow> string option \<Rightarrow> report_entry list \<Rightarrow> cluster \<Rightarrow> pool \<Rightarrow> trace
     \<Rightarrow> channel \<times> trace" where
  "ZigbeeChannel_init cls CHANNEL_NAME REPORT_CONFIG cl p t =
     (\<lparr> kind = cls,
        channel_name =
          (case CHANNEL_NAME of
             Some n \<Rightarrow> if n \<noteq> [] then n else ep_attribute cl
           | None \<Rightarrow> ep_attribute cl),
        ch_pool = p,
        generic_id = ''channel_0x'' @ format_04x (cluster_id cl),
        cluster = cl,
        ident = pool_id p @ '':0x'' @ format_04x (cluster_id cl),
        unique_id = replace_dash (pool_unique_id p) @ '':0x'' @ format_04x (cluster_id cl),
        report_config = REPORT_CONFIG,
        status = CREATED,
        value_attribute = None \<rparr>,
      t @ [AddListener])"

text \<open>Truth value of \<^verbatim>\<open>manufacturer_code\<close>: neither \<^verbatim>\<open>None\<close> nor zero.\<close>

fun truthy :: "int option \<Rightarrow> bool" where
  "truthy None = False"
| "truthy (Some m) = (m \<noteq> 0)"

definition async_send_signal :: "channel \<Rightarrow> string \<Rightarrow> pyval list \<Rightarrow> trace \<Rightarrow> (exn + unit) \<times> trace" where
  "async_send_signal ch signal args t = (Inr (), t @ [SendSignal signal args])"

definition bind :: "channel \<Rightarrow> trace \<Rightarrow> (exn + unit) \<times> trace" where
  "bind ch t =
     (let t1 = t @ [ClusterBind] in
      case bind_reply (cluster ch) t1 of
        Inr res \<Rightarrow>
          (case res of
             [] \<Rightarrow> (Inl IndexError, t1)
           | r0 # _ \<Rightarrow> (Inr (), t1 @ [Debug (Bound (ep_attribute (cluster ch)) r0)]))
      | Inl ex \<Rightarrow>
          if is_delivery_or_timeout ex
          then (Inr (), t1 @ [Debug (FailedToBind (ep_attribute (cluster ch)) ex)])
          else (Inl ex, t1))"

definition configure_reporting ::
  "env \<Rightarrow> channel \<Rightarrow> attr_ref \<Rightarrow> (int \<times> int \<times> int) option \<Rightarrow> trace \<Rightarrow> (exn + unit) \<times> trace" where
  "configure_reporting E ch a report_config_arg t =
     (let rc = (case report_config_arg of
                  Some c \<Rightarrow> c
                | None \<Rightarrow> (REPORT_CONFIG_MIN_INT E, REPORT_CONFIG_MAX_INT E, REPORT_CONFIG_RPT_CHANGE E));
          attr_name = (case a of
                         AttrId i \<Rightarrow> (case attributes (cluster ch) i of Some n \<Rightarrow> AttrName n | None \<Rightarrow> a)
                       | AttrName s \<Rightarrow> a);
          manufacturer =
            (if cluster_id (cluster ch) \<ge> 0xFC00 \<and> truthy (manufacturer_code (ch_pool ch))
             then manufacturer_code (ch_pool ch) else None);
          min_report_int = fst rc;
          max_report_int = fst (snd rc);
          reportable_change = snd (snd rc);
          t1 = t @ [ClusterConfigureReporting a min_report_int max_report_int reportable_change manufacturer]
      in case configure_reporting_reply (cluster ch) t1 of
           Inr res \<Rightarrow>
             (Inr (), t1 @ [Debug (Reporting attr_name (ep_attribute (cluster ch))
                                     min_report_int max_report_int reportable_change res)])
         | Inl ex \<Rightarrow>
             if is_delivery_or_timeout ex
             then (Inr (), t1 @ [Debug (FailedReporting attr_name (ep_attribute (cluster ch)) ex)])
             else (Inl ex, t1))"

text \<open>The loop of \<^verbatim>\<open>async_configure\<close> over \<^verbatim>\<open>self._report_config\<close>.\<close>

fun configure_loop :: "env \<Rightarrow> channel \<Rightarrow> report_entry list \<Rightarrow> trace \<Rightarrow> (exn + unit) \<times> trace" where
  "configure_loop E ch [] t = (Inr (), t)"
| "configure_loop E ch (rc # rcs) t =
     (case configure_reporting E ch (attr rc) (Some (config rc)) t of
        (Inl ex, t1) \<Rightarrow> (Inl ex, t1)
      | (Inr _, t1) \<Rightarrow> configure_loop E ch rcs (t1 @ [SleepUniform (1 / 10) (1 / 2)]))"

definition async_configure :: "env \<Rightarrow> channel \<Rightarrow> trace \<Rightarrow> (exn + unit) \<times> channel \<times> trace" where
  "async_configure E ch t =
     (if \<not> skip_configuration (ch_pool ch) then
        (case bind ch t of
           (Inl ex, t1) \<Rightarrow> (Inl ex, ch, t1)
         | (Inr _, t1) \<Rightarrow>
             (case (if is_server (cluster ch) then configure_loop E ch (report_config ch) t1
                    else (Inr (), t1)) of
                (Inl ex, t2) \<Rightarrow> (Inl ex, ch, t2)
              | (Inr _, t2) \<Rightarrow>
                  (Inr (), ch\<lparr>status := CONFIGURED\<rparr>, t2 @ [Debug FinishedConfiguration])))
      else (Inr (), ch\<lparr>status := CONFIGURED\<rparr>, t @ [Debug SkippingConfiguration]))"


definition zha_send_event :: "channel \<Rightarrow> string \<Rightarrow> pyval \<Rightarrow> trace \<Rightarrow> (exn + unit) \<times> trace" where
  "zha_send_event ch cmd args t =
     (Inr (), t @ [ZhaSendEvent (unique_id ch) (cluster_id (cluster ch)) cmd args])"

definition get_attribute_value ::
  "env \<Rightarrow> channel \<Rightarrow> attr_ref \<Rightarrow> bool \<Rightarrow> trace \<Rightarrow> (exn + pyval) \<times> trace" where
  "get_attribute_value E ch attribute from_cache t =
     (let mc = manufacturer_code (ch_pool ch);
          manufacturer = (if cluster_id (cluster ch) \<ge> 0xFC00 \<and> truthy mc then mc else None);
          t1 = t @ [SafeRead [attribute] from_cache from_cache manufacturer]
      in case safe_read_reply E t1 of
           Inl ex \<Rightarrow> (Inl ex, t1)
         | Inr result \<Rightarrow> (Inr (case result attribute of Some v \<Rightarrow> v | None \<Rightarrow> PNone), t1))"

text \<open>
  Attribute lookup. \<open>members\<close> are the names that ordinary lookup finds on a channel of
  the class: the instance attributes set by \<^verbatim>\<open>__init__\<close>, the names the classes of this
  module define, those of \<^verbatim>\<open>LogMixin\<close>, and those every Python object has. \<open>object_getattribute\<close> is
  \<^verbatim>\<open>self.__getattribute__(name)\<close>, \<open>ZigbeeChannel_getattr\<close> is \<^verbatim>\<open>__getattr__\<close>, and
  \<open>channel_getattr\<close> is the expression \<^verbatim>\<open>channel.name\<close>, which calls \<^verbatim>\<open>__getattr__\<close>
  when ordinary lookup raises \<^verbatim>\<open>AttributeError\<close>. In \<^verbatim>\<open>__getattr__\<close> the statement
  \<^verbatim>\<open>command.__name__ = name\<close> comes before the call of \<^verbatim>\<open>decorate_command\<close>; on a
  bound method it raises \<^verbatim>\<open>AttributeError\<close> (no attribute \<^verbatim>\<open>__name__\<close> to assign).
\<close>

definition ZigbeeChannel_members :: "string list" where
  "ZigbeeChannel_members =
     [''_channel_name'', ''_ch_pool'', ''_generic_id'', ''_cluster'', ''_id'', ''_unique_id'',
      ''_report_config'', ''_status'', ''CHANNEL_NAME'', ''REPORT_CONFIG'', ''id'', ''generic_id'',
      ''unique_id'', ''cluster'', ''name'', ''status'', ''async_send_signal'', ''bind'',
      ''configure_reporting'', ''async_configure'', ''async_initialize'', ''cluster_command'',
      ''attribute_updated'', ''zdo_command'', ''zha_send_event'', ''async_update'',
      ''get_attribute_value'', ''log'', ''__init__'', ''__getattr__'']"

text \<open>The names that ordinary lookup finds on every instance of a Python class.\<close>

definition object_members :: "string list" where
  "object_members =
     [''__class__'', ''__delattr__'', ''__dict__'', ''__dir__'', ''__doc__'', ''__eq__'',
      ''__format__'', ''__ge__'', ''__getattribute__'', ''__gt__'', ''__hash__'',
      ''__init_subclass__'', ''__le__'', ''__lt__'', ''__module__'', ''__ne__'', ''__new__'',
      ''__reduce__'', ''__reduce_ex__'', ''__repr__'', ''__setattr__'', ''__sizeof__'',
      ''__str__'', ''__subclasshook__'', ''__weakref__'']"

definition members :: "env \<Rightarrow> channel \<Rightarrow> string list" where
  "members E ch =
     (case kind ch of
        AttributeListeningChannel \<Rightarrow> [''value_attribute'']
      | _ \<Rightarrow> []) @ ZigbeeChannel_members @ LogMixin_members E @ object_members"

datatype attr_value = Member string | BoundCommand command

definition object_getattribute :: "env \<Rightarrow> channel \<Rightarrow> string \<Rightarrow> exn + attr_value" where
  "object_getattribute E ch name =
     (if name \<in> set (members E ch) then Inr (Member name) else Inl (AttributeError name))"

definition ZigbeeChannel_getattr :: "env \<Rightarrow> channel \<Rightarrow> string \<Rightarrow> exn + attr_value" where
  "ZigbeeChannel_getattr E ch name =
     (case namespace (cluster ch) name of
        Some (Partial f) \<Rightarrow>
          Inr (BoundCommand (decorate_command ch \<lparr> cmd_name = name, cmd_call = f \<rparr>))
      | Some (Method f) \<Rightarrow> Inl (AttributeError ''__name__'')
      | _ \<Rightarrow> object_getattribute E ch name)"

definition channel_getattr :: "env \<Rightarrow> channel \<Rightarrow> string \<Rightarrow> exn + attr_value" where
  "channel_getattr E ch name =
     (case object_getattribute E ch name of
        Inr v \<Rightarrow> Inr v
      | Inl (AttributeError _) \<Rightarrow> ZigbeeChannel_getattr E ch name
      | Inl ex \<Rightarrow> Inl ex)"

subsection \<open>AttributeListeningChannel\<close>

definition AttributeListeningChannel_REPORT_CONFIG :: "env \<Rightarrow> report_entry list" where
  "AttributeListeningChannel_REPORT_CONFIG E =
     [\<lparr> attr = AttrId 0, config = REPORT_CONFIG_DEFAULT E \<rparr>]"

definition AttributeListeningChannel_init ::
  "env \<Rightarrow> report_entry list \<Rightarrow> cluster \<Rightarrow> pool \<Rightarrow> trace \<Rightarrow> (exn + channel) \<times> trace" where
  "AttributeListeningChannel_init E REPORT_CONFIG cl p t =
     (case ZigbeeChannel_init AttributeListeningChannel None REPORT_CONFIG cl p t of
        (ch, t1) \<Rightarrow>
          (case report_config ch of
             [] \<Rightarrow> (Inl IndexError, t1)
           | rc # _ \<Rightarrow>
               (Inr (ch\<lparr>value_attribute :=
                         (case attr rc of
                            AttrName s \<Rightarrow> get_attr_id_by_name E (cluster ch) s
                          | AttrId i \<Rightarrow> Some i)\<rparr>), t1)))"

definition AttributeListeningChannel_attribute_updated ::
  "channel \<Rightarrow> nat \<Rightarrow> pyval \<Rightarrow> trace \<Rightarrow> (exn + unit) \<times> trace" where
  "AttributeListeningChannel_attribute_updated ch attrid v t =
     (if Some attrid = value_attribute ch
      then async_send_signal ch (unique_id ch @ ''_'' @ SIGNAL_ATTR_UPDATED) [v] t
      else (Inr (), t))"


subsection \<open>EventRelayChannel\<close>

definition EventRelayChannel_init :: "env \<Rightarrow> cluster \<Rightarrow> pool \<Rightarrow> trace \<Rightarrow> channel \<times> trace" where
  "EventRelayChannel_init E cl p t =
     ZigbeeChannel_init EventRelayChannel (Some (CHANNEL_EVENT_RELAY E)) [] cl p t"

definition EventRelayChannel_attribute_updated ::
  "env \<Rightarrow> channel \<Rightarrow> nat \<Rightarrow> pyval \<Rightarrow> trace \<Rightarrow> (exn + unit) \<times> trace" where
  "EventRelayChannel_attribute_updated E ch attrid v t =
     zha_send_event ch SIGNAL_ATTR_UPDATED
       (PDict [(ATTR_ATTRIBUTE_ID E, PInt (int attrid)),
               (ATTR_ATTRIBUTE_NAME E,
                  PStr (case attributes (cluster ch) attrid of Some n \<Rightarrow> n | None \<Rightarrow> ''Unknown'')),
               (ATTR_VALUE E, v)]) t"

definition EventRelayChannel_cluster_command ::
  "channel \<Rightarrow> nat \<Rightarrow> nat \<Rightarrow> pyval \<Rightarrow> trace \<Rightarrow> (exn + unit) \<times> trace" where
  "EventRelayChannel_cluster_command ch tsn command_id args t =
     (case server_commands (cluster ch) of
        None \<Rightarrow> (Inr (), t)
      | Some cmds \<Rightarrow>
          (case cmds command_id of
             None \<Rightarrow> (Inr (), t)
           | Some c \<Rightarrow> zha_send_event ch (fst c) args t))"

subsection \<open>Method dispatch on the class of the channel\<close>


definition attribute_updated ::
  "env \<Rightarrow> channel \<Rightarrow> nat \<Rightarrow> pyval \<Rightarrow> trace \<Rightarrow> (exn + unit) \<times> trace" where
  "attribute_updated E ch attrid v t =
     (case kind ch of
        ZigbeeChannel \<Rightarrow> (Inr (), t)
      | AttributeListeningChannel \<Rightarrow> AttributeListeningChannel_attribute_updated ch attrid v t
      | EventRelayChannel \<Rightarrow> EventRelayChannel_attribute_updated E ch attrid v t)"

definition cluster_command ::
  "channel \<Rightarrow> nat \<Rightarrow> nat \<Rightarrow> pyval \<Rightarrow> trace \<Rightarrow> (exn + unit) \<times> trace" where
  "cluster_command ch tsn command_id args t =
     (case kind ch of
        EventRelayChannel \<Rightarrow> EventRelayChannel_cluster_command ch tsn command_id args t
      | _ \<Rightarrow> (Inr (), t))"

subsection \<open>ZDOChannel\<close>






subsection \<open>Sequences of lifecycle calls\<close>







subsection \<open>Projections of the trace\<close>

text \<open>The calls that leave the channel towards the device.\<close>

fun is_transport_call :: "event \<Rightarrow> bool" where
  "is_transport_call ClusterBind = True"
| "is_transport_call (ClusterConfigureReporting _ _ _ _ _) = True"
| "is_transport_call (SafeRead _ _ _ _) = True"
| "is_transport_call _ = False"

fun is_sleep :: "event \<Rightarrow> bool" where
  "is_sleep (SleepUniform _ _) = True"
| "is_sleep _ = False"

text \<open>
  The calls and pauses of one complete \<^verbatim>\<open>async_configure\<close> that does not skip
  configuration, in the order the source text gives them.
\<close>

definition reporting_step :: "channel \<Rightarrow> report_entry \<Rightarrow> event list" where
  "reporting_step ch rc =
     [ClusterConfigureReporting (attr rc) (fst (config rc)) (fst (snd (config rc)))
        (snd (snd (config rc)))
        (if cluster_id (cluster ch) \<ge> 0xFC00 \<and> truthy (manufacturer_code (ch_pool ch))
         then manufacturer_code (ch_pool ch) else None),
      SleepUniform (1 / 10) (1 / 2)]"

definition configure_schedule :: "channel \<Rightarrow> event list" where
  "configure_schedule ch =
     ClusterBind #
     (if is_server (cluster ch) then concat (map (reporting_step ch) (report_config ch)) else [])"

subsection \<open>Example collaborators\<close>

definition example_env :: env where
  "example_env =
     \<lparr> REPORT_CONFIG_DEFAULT = (30, 900, 1),
       REPORT_CONFIG_MIN_INT = 30,
       REPORT_CONFIG_MAX_INT = 900,
       REPORT_CONFIG_RPT_CHANGE = 1,
       CHANNEL_EVENT_RELAY = ''event_relay'',
       CHANNEL_ZDO = ''zdo'',
       ATTR_ATTRIBUTE_ID = ''attribute_id'',
       ATTR_ATTRIBUTE_NAME = ''attribute_name'',
       ATTR_VALUE = ''value'',
       LogMixin_members = [''debug'', ''info'', ''warning'', ''error''],
       get_attr_id_by_name = (\<lambda>cl s. None),
       safe_read_reply = (\<lambda>t. Inr Map.empty) \<rparr>"

text \<open>A standard cluster (id \<open>0x0006\<close>) whose device answers every call.\<close>

definition toggle_fn :: command_fn where
  "toggle_fn = (\<lambda>args kwds t. (Inr (PList [PInt 0]), t))"

definition example_cluster :: cluster where
  "example_cluster =
     \<lparr> cluster_id = 0x0006,
       ep_attribute = ''on_off'',
       is_server = True,
       attributes = [0 \<mapsto> ''on_off''],
       server_commands = Some [5 \<mapsto> (''toggle'', PNone)],
       namespace = [''toggle'' \<mapsto> Partial toggle_fn,
                    ''add_listener'' \<mapsto> Method (\<lambda>args kwds t. (Inr PNone, t)),
                    ''cluster_id'' \<mapsto> Plain (PInt 6)],
       bind_reply = (\<lambda>t. Inr [PInt 0]),
       configure_reporting_reply = (\<lambda>t. Inr (PList [PInt 0])) \<rparr>"

text \<open>The same cluster on a device that is asleep: every call fails.\<close>

definition asleep_cluster :: cluster where
  "asleep_cluster =
     example_cluster
       \<lparr> bind_reply := (\<lambda>t. Inl (DeliveryError ''no route'')),
         configure_reporting_reply := (\<lambda>t. Inl TimeoutError) \<rparr>"


text \<open>A manufacturer-specific cluster (id \<open>0xFC10\<close>).\<close>

definition vendor_cluster :: cluster where
  "vendor_cluster = example_cluster \<lparr> cluster_id := 0xFC10, ep_attribute := ''vendor'' \<rparr>"

text \<open>A cluster without a table of server commands.\<close>

definition tableless_cluster :: cluster where
  "tableless_cluster = example_cluster \<lparr> server_commands := None \<rparr>"

definition example_pool :: pool where
  "example_pool =
     \<lparr> pool_id = ''00:0d:6f:00:0a:90:69:e7-1'',
       pool_unique_id = ''00:0d:6f:00:0a:90:69:e7-1'',
       nwk = 0x1234,
       manufacturer_code = Some 0x115F,
       skip_configuration = False \<rparr>"

definition skipping_pool :: pool where
  "skipping_pool = example_pool \<lparr> skip_configuration := True \<rparr>"

definition two_reports :: "report_entry list" where
  "two_reports =
     [\<lparr> attr = AttrId 0, config = (30, 900, 1) \<rparr>,
      \<lparr> attr = AttrName ''level'', config = (1, 60, 5) \<rparr>]"

definition example_channel :: "channel_class \<Rightarrow> report_entry list \<Rightarrow> cluster \<Rightarrow> pool \<Rightarrow> channel" where
  "example_channel cls rcs cl p = fst (ZigbeeChannel_init cls None rcs cl p [])"

definition failing_fn :: "exn \<Rightarrow> command_fn" where
  "failing_fn ex = (\<lambda>args kwds t. (Inl ex, t))"

text \<open>A channel that listens to attribute \<open>0x0020\<close>, and an event relay.\<close>

definition listening_channel :: channel where
  "listening_channel =
     projr (fst (AttributeListeningChannel_init example_env
                   [\<lparr> attr = AttrId 0x0020, config = (30, 900, 1) \<rparr>]
                   example_cluster example_pool []))"

definition relay_channel :: "cluster \<Rightarrow> channel" where
  "relay_channel cl = fst (EventRelayChannel_init example_env cl example_pool [])"



subsection \<open>Predicates used to state the properties\<close>

text \<open>The transport calls and the pauses: what the pacing of configuration is about.\<close>

definition is_paced :: "event \<Rightarrow> bool" where
  "is_paced e \<longleftrightarrow> is_transport_call e \<or> is_sleep e"


section \<open>Properties\<close>

subsection \<open>Lifecycle calls return when the transport's failures are contained\<close>















subsection \<open>The trace of one configuration\<close>

lemma is_paced_simps [simp]:
  "is_paced ClusterBind" "is_paced (ClusterConfigureReporting a mn mx c m)"
  "is_paced (SleepUniform lo hi)" "\<not> is_paced (Debug msg)"
  by (simp_all add: is_paced_def)

lemma bind_trace:
  "\<exists>es. snd (bind ch t) = t @ ClusterBind # es \<and> filter is_paced es = []"
  by (auto simp: bind_def Let_def split: sum.splits list.splits)

lemma configure_reporting_trace:
  "\<exists>es. snd (configure_reporting E ch (attr rc) (Some (config rc)) t)
           = t @ hd (reporting_step ch rc) # es \<and> filter is_paced es = []"
  by (auto simp: configure_reporting_def reporting_step_def Let_def split: sum.splits)

lemma configure_loop_trace:
  "\<exists>new. snd (configure_loop E ch rcs t) = t @ new
       \<and> prefix (filter is_paced new) (concat (map (reporting_step ch) rcs))
       \<and> (fst (configure_loop E ch rcs t) = Inr ()
            \<longrightarrow> filter is_paced new = concat (map (reporting_step ch) rcs))"
proof (induction rcs arbitrary: t)
  case Nil
  show ?case by simp
next
  case (Cons rc rcs)
  obtain r t1 where cr: "configure_reporting E ch (attr rc) (Some (config rc)) t = (r, t1)"
    by (cases "configure_reporting E ch (attr rc) (Some (config rc)) t")
  obtain es where es: "t1 = t @ hd (reporting_step ch rc) # es" "filter is_paced es = []"
    using configure_reporting_trace [of E ch rc t] cr by auto
  have step: "reporting_step ch rc = [hd (reporting_step ch rc), SleepUniform (1 / 10) (1 / 2)]"
    by (simp add: reporting_step_def)
  have hp: "is_paced (hd (reporting_step ch rc))"
    by (simp add: reporting_step_def)
  show ?case
  proof (cases r)
    case (Inl ex)
    have "snd (configure_loop E ch (rc # rcs) t) = t @ (hd (reporting_step ch rc) # es)"
      using cr Inl es by simp
    moreover have "prefix (filter is_paced (hd (reporting_step ch rc) # es))
                     (concat (map (reporting_step ch) (rc # rcs)))"
      using es(2) hp step by (metis append_Cons concat.simps(2) filter.simps(2) list.simps(9) prefix_code(1) prefix_code(3))
    moreover have "fst (configure_loop E ch (rc # rcs) t) \<noteq> Inr ()"
      using cr Inl by simp
    ultimately show ?thesis by blast
  next
    case (Inr u)
    let ?t2 = "t1 @ [SleepUniform (1 / 10) (1 / 2)]"
    obtain new where new: "snd (configure_loop E ch rcs ?t2) = ?t2 @ new"
      "prefix (filter is_paced new) (concat (map (reporting_step ch) rcs))"
      "fst (configure_loop E ch rcs ?t2) = Inr ()
         \<longrightarrow> filter is_paced new = concat (map (reporting_step ch) rcs)"
      using Cons.IH [of ?t2] by blast
    let ?new = "hd (reporting_step ch rc) # es @ SleepUniform (1 / 10) (1 / 2) # new"
    have eq: "configure_loop E ch (rc # rcs) t = configure_loop E ch rcs ?t2"
      using cr Inr by simp
    have f: "filter is_paced ?new = reporting_step ch rc @ filter is_paced new"
      using es(2) hp step by (metis append_Cons append_Nil filter.simps(2) filter_append is_paced_simps(3))
    have "snd (configure_loop E ch (rc # rcs) t) = t @ ?new"
      using eq new(1) es(1) by simp
    moreover have "prefix (filter is_paced ?new) (concat (map (reporting_step ch) (rc # rcs)))"
      using f new(2) by simp
    moreover have "fst (configure_loop E ch (rc # rcs) t) = Inr ()
         \<longrightarrow> filter is_paced ?new = concat (map (reporting_step ch) (rc # rcs))"
      using f new(3) eq by simp
    ultimately show ?thesis by blast
  qed
qed

subsection \<open>Claims\<close>




text \<open>
  C2: the wrapper made by \<^verbatim>\<open>decorate_command\<close> returns the result of the wrapped call
  unchanged when that call succeeds, returns the exception itself as its result when the
  call raises a delivery failure or a timeout, and raises any other exception unchanged.
\<close>

theorem decorate_command_contains_failures:
  "(fst (cmd_call command args kwds t) = Inr result
      \<longrightarrow> fst (cmd_call (decorate_command channel command) args kwds t) = Inr result)
   \<and> (fst (cmd_call command args kwds t) = Inl ex \<and> is_delivery_or_timeout ex
      \<longrightarrow> fst (cmd_call (decorate_command channel command) args kwds t) = Inr (PExn ex))
   \<and> (fst (cmd_call command args kwds t) = Inl ex \<and> \<not> is_delivery_or_timeout ex
      \<longrightarrow> fst (cmd_call (decorate_command channel command) args kwds t) = Inl ex)"
  by (cases "cmd_call command args kwds t") (auto simp: decorate_command_def split: sum.splits)

text \<open>
  Witness for C2: a command that answers, one that times out, and one that raises another
  exception.
\<close>

theorem decorate_command_contains_failures_witness:
  "fst (cmd_call (decorate_command () \<lparr>cmd_name = ''toggle'', cmd_call = toggle_fn\<rparr>) [] [] [])
     = Inr (PList [PInt 0])
   \<and> fst (cmd_call (decorate_command () \<lparr>cmd_name = ''on'', cmd_call = failing_fn TimeoutError\<rparr>) [] [] [])
     = Inr (PExn TimeoutError)
   \<and> fst (cmd_call (decorate_command ()
            \<lparr>cmd_name = ''on'', cmd_call = failing_fn (OtherError ''ValueError'')\<rparr>) [] [] [])
     = Inl (OtherError ''ValueError'')"
  using decorate_command_contains_failures
          [of "\<lparr>cmd_name = ''toggle'', cmd_call = toggle_fn\<rparr>" "[]" "[]" "[]" "PList [PInt 0]"
              "()" TimeoutError]
        decorate_command_contains_failures
          [of "\<lparr>cmd_name = ''on'', cmd_call = failing_fn TimeoutError\<rparr>" "[]" "[]" "[]" PNone
              "()" TimeoutError]
        decorate_command_contains_failures
          [of "\<lparr>cmd_name = ''on'', cmd_call = failing_fn (OtherError ''ValueError'')\<rparr>"
              "[]" "[]" "[]" PNone "()" "OtherError ''ValueError''"]
  by (simp add: toggle_fn_def failing_fn_def)

text \<open>
  What attribute lookup does for a name that is not a member of the channel: a callable
  of the cluster that accepts the assignment of its name comes back wrapped by
  \<^verbatim>\<open>decorate_command\<close> (named after the lookup, and containing delivery failures and
  timeouts); a bound method of the cluster makes the lookup raise; and so does a name
  for which the cluster has no callable.
\<close>

lemma getattr_cases:
  assumes "name \<notin> set (members E ch)"
  shows "(namespace (cluster ch) name = Some (Partial f) \<longrightarrow>
            (\<exists>w. channel_getattr E ch name = Inr (BoundCommand w)
                \<and> w = decorate_command ch \<lparr>cmd_name = name, cmd_call = f\<rparr>
                \<and> cmd_name w = name
                \<and> (\<forall>args kwds t.
                      fst (cmd_call w args kwds t)
                        = (case fst (f args kwds t) of
                             Inr result \<Rightarrow> Inr result
                           | Inl ex \<Rightarrow> if is_delivery_or_timeout ex then Inr (PExn ex) else Inl ex))))
       \<and> (namespace (cluster ch) name = Some (Method f) \<longrightarrow>
            channel_getattr E ch name = Inl (AttributeError ''__name__''))
       \<and> ((\<forall>g. namespace (cluster ch) name \<noteq> Some (Partial g)
               \<and> namespace (cluster ch) name \<noteq> Some (Method g)) \<longrightarrow>
            channel_getattr E ch name = Inl (AttributeError name))"
proof (intro conjI impI)
  assume c: "namespace (cluster ch) name = Some (Partial f)"
  let ?w = "decorate_command ch \<lparr>cmd_name = name, cmd_call = f\<rparr>"
  have 1: "channel_getattr E ch name = Inr (BoundCommand ?w)"
    using assms c
    by (simp add: channel_getattr_def object_getattribute_def ZigbeeChannel_getattr_def)
  have 2: "cmd_name ?w = name"
    by (simp add: decorate_command_def)
  have 3: "fst (cmd_call ?w args kwds t)
             = (case fst (f args kwds t) of
                  Inr result \<Rightarrow> Inr result
                | Inl ex \<Rightarrow> if is_delivery_or_timeout ex then Inr (PExn ex) else Inl ex)"
    for args kwds t
    by (cases "f args kwds t") (auto simp: decorate_command_def split: sum.splits)
  show "\<exists>w. channel_getattr E ch name = Inr (BoundCommand w)
           \<and> w = decorate_command ch \<lparr>cmd_name = name, cmd_call = f\<rparr>
           \<and> cmd_name w = name
           \<and> (\<forall>args kwds t.
                 fst (cmd_call w args kwds t)
                   = (case fst (f args kwds t) of
                        Inr result \<Rightarrow> Inr result
                      | Inl ex \<Rightarrow> if is_delivery_or_timeout ex then Inr (PExn ex) else Inl ex))"
    using 1 2 3 by blast
next
  assume "namespace (cluster ch) name = Some (Method f)"
  then show "channel_getattr E ch name = Inl (AttributeError ''__name__'')"
    using assms
    by (simp add: channel_getattr_def object_getattribute_def ZigbeeChannel_getattr_def)
next
  assume n: "\<forall>g. namespace (cluster ch) name \<noteq> Some (Partial g)
                \<and> namespace (cluster ch) name \<noteq> Some (Method g)"
  show "channel_getattr E ch name = Inl (AttributeError name)"
    using assms n
    by (auto simp: channel_getattr_def object_getattribute_def ZigbeeChannel_getattr_def
        split: option.splits pyobj.splits)
qed

text \<open>
  C3 says that lookup of a name that is not a member of the channel returns the wrapped
  command whenever the cluster has a callable of that name. On the example cluster,
  \<open>toggle\<close> (a command) comes back wrapped and \<open>cluster_id\<close> (not callable) raises
  \<^verbatim>\<open>AttributeError\<close>, as C3 says; but \<open>add_listener\<close>, a callable of the cluster that
  is a bound method, does not come back wrapped: the lookup raises \<^verbatim>\<open>AttributeError\<close>.
\<close>

theorem getattr_of_cluster_method_raises:
  "''add_listener'' \<notin> set (members example_env (relay_channel example_cluster))
   \<and> (\<exists>f. namespace (cluster (relay_channel example_cluster)) ''add_listener'' = Some (Method f))
   \<and> channel_getattr example_env (relay_channel example_cluster) ''add_listener''
       = Inl (AttributeError ''__name__'')
   \<and> (\<exists>w. channel_getattr example_env (relay_channel example_cluster) ''toggle''
             = Inr (BoundCommand w)
          \<and> cmd_name w = ''toggle''
          \<and> fst (cmd_call w [] [] []) = Inr (PList [PInt 0]))
   \<and> channel_getattr example_env (relay_channel example_cluster) ''cluster_id''
       = Inl (AttributeError ''cluster_id'')"
proof -
  let ?ch = "relay_channel example_cluster"
  have c: "cluster ?ch = example_cluster"
    by (simp add: relay_channel_def EventRelayChannel_init_def ZigbeeChannel_init_def)
  have k: "kind ?ch = EventRelayChannel"
    by (simp add: relay_channel_def EventRelayChannel_init_def ZigbeeChannel_init_def)
  have m: "members example_env ?ch
             = ZigbeeChannel_members @ [''debug'', ''info'', ''warning'', ''error'']
                 @ object_members"
    by (simp add: members_def k example_env_def)
  have m0: "''add_listener'' \<notin> set (members example_env ?ch)"
    unfolding m by (simp add: ZigbeeChannel_members_def object_members_def)
  have m1: "''toggle'' \<notin> set (members example_env ?ch)"
    unfolding m by (simp add: ZigbeeChannel_members_def object_members_def)
  have m2: "''cluster_id'' \<notin> set (members example_env ?ch)"
    unfolding m by (simp add: ZigbeeChannel_members_def object_members_def)
  have n0: "namespace (cluster ?ch) ''add_listener'' = Some (Method (\<lambda>args kwds t. (Inr PNone, t)))"
    unfolding c by (simp add: example_cluster_def)
  have n1: "namespace (cluster ?ch) ''toggle'' = Some (Partial toggle_fn)"
    unfolding c by (simp add: example_cluster_def)
  have n2: "\<forall>g. namespace (cluster ?ch) ''cluster_id'' \<noteq> Some (Partial g)
                \<and> namespace (cluster ?ch) ''cluster_id'' \<noteq> Some (Method g)"
    unfolding c by (simp add: example_cluster_def)
  have t: "fst (toggle_fn [] [] []) = Inr (PList [PInt 0])"
    by (simp add: toggle_fn_def)
  have r0: "channel_getattr example_env ?ch ''add_listener'' = Inl (AttributeError ''__name__'')"
    using getattr_cases [OF m0] n0 by blast
  from getattr_cases [OF m1, of toggle_fn] n1
  obtain w where w: "channel_getattr example_env ?ch ''toggle'' = Inr (BoundCommand w)"
      "cmd_name w = ''toggle''"
      "\<forall>args kwds t. fst (cmd_call w args kwds t)
          = (case fst (toggle_fn args kwds t) of
               Inr result \<Rightarrow> Inr result
             | Inl ex \<Rightarrow> if is_delivery_or_timeout ex then Inr (PExn ex) else Inl ex)"
    by blast
  have r1: "fst (cmd_call w [] [] []) = Inr (PList [PInt 0])"
    using w(3) t by simp
  have r2: "channel_getattr example_env ?ch ''cluster_id'' = Inl (AttributeError ''cluster_id'')"
    using getattr_cases [OF m2, of toggle_fn] n2 by blast
  show ?thesis using m0 n0 r0 w(1,2) r1 r2 by blast
qed

text \<open>
  C4: when the cluster's \<^verbatim>\<open>bind\<close> raises a delivery failure or a timeout, the
  channel's \<^verbatim>\<open>bind\<close> logs the failure and returns; when the call of the cluster's
  \<^verbatim>\<open>configure_reporting\<close> that the channel makes raises one, the channel's
  \<^verbatim>\<open>configure_reporting\<close> logs the failure and returns. In both cases the trace gains
  the one call and the one log entry, and nothing is raised.
\<close>

theorem bind_and_reporting_swallow_failures:
  assumes "is_delivery_or_timeout ex"
  shows "(bind_reply (cluster ch) (t @ [ClusterBind]) = Inl ex
            \<longrightarrow> bind ch t
                  = (Inr (), t @ [ClusterBind, Debug (FailedToBind (ep_attribute (cluster ch)) ex)]))
       \<and> (let c = (case rc of
                      Some c \<Rightarrow> c
                    | None \<Rightarrow> (REPORT_CONFIG_MIN_INT E, REPORT_CONFIG_MAX_INT E,
                                REPORT_CONFIG_RPT_CHANGE E));
               m = (if cluster_id (cluster ch) \<ge> 0xFC00 \<and> truthy (manufacturer_code (ch_pool ch))
                    then manufacturer_code (ch_pool ch) else None);
               call = ClusterConfigureReporting a (fst c) (fst (snd c)) (snd (snd c)) m;
               attr_name = (case a of
                              AttrId i \<Rightarrow> (case attributes (cluster ch) i of
                                              Some n \<Rightarrow> AttrName n
                                            | None \<Rightarrow> a)
                            | AttrName s \<Rightarrow> a)
           in configure_reporting_reply (cluster ch) (t @ [call]) = Inl ex
                \<longrightarrow> configure_reporting E ch a rc t
                      = (Inr (),
                         t @ [call,
                              Debug (FailedReporting attr_name (ep_attribute (cluster ch)) ex)]))"
  using assms
  by (auto simp: bind_def configure_reporting_def Let_def)

text \<open>
  Witness for C4: a device that is asleep, whose bind is undeliverable and whose reporting
  configuration times out.
\<close>

theorem bind_and_reporting_swallow_failures_witness:
  "is_delivery_or_timeout (DeliveryError ''no route'')
   \<and> is_delivery_or_timeout TimeoutError
   \<and> bind (example_channel ZigbeeChannel two_reports asleep_cluster example_pool) []
       = (Inr (), [ClusterBind, Debug (FailedToBind ''on_off'' (DeliveryError ''no route''))])
   \<and> configure_reporting example_env
        (example_channel ZigbeeChannel two_reports asleep_cluster example_pool)
        (AttrId 0) None []
       = (Inr (), [ClusterConfigureReporting (AttrId 0) 30 900 1 None,
                   Debug (FailedReporting (AttrName ''on_off'') ''on_off'' TimeoutError)])"
proof -
  let ?ch = "example_channel ZigbeeChannel two_reports asleep_cluster example_pool"
  have c: "cluster ?ch = asleep_cluster"
    by (simp add: example_channel_def ZigbeeChannel_init_def)
  have p: "manufacturer_code (ch_pool ?ch) = Some 0x115F"
    by (simp add: example_channel_def ZigbeeChannel_init_def example_pool_def)
  have b: "bind_reply (cluster ?ch) ([] @ [ClusterBind]) = Inl (DeliveryError ''no route'')"
    unfolding c by (simp add: asleep_cluster_def)
  have r: "configure_reporting_reply (cluster ?ch) t = Inl TimeoutError" for t
    unfolding c by (simp add: asleep_cluster_def)
  have e: "ep_attribute (cluster ?ch) = ''on_off''" "cluster_id (cluster ?ch) = 6"
      "attributes (cluster ?ch) 0 = Some ''on_off''"
    unfolding c by (simp_all add: asleep_cluster_def example_cluster_def)
  have d1: "is_delivery_or_timeout (DeliveryError ''no route'')" by simp
  have d2: "is_delivery_or_timeout TimeoutError" by simp
  show ?thesis
    using bind_and_reporting_swallow_failures [OF d1, of ?ch "[]"]
          bind_and_reporting_swallow_failures
            [OF d2, where ch = ?ch and t = "[]" and rc = None and E = example_env
                      and a = "AttrId 0"]
          b r e p
    by (simp add: Let_def example_env_def)
qed

text \<open>
  C5: when the pool says to skip configuration, \<^verbatim>\<open>async_configure\<close> logs that it
  skips, makes no call of the transport, and ends with status \<open>CONFIGURED\<close>.
\<close>

theorem skip_configuration_only_sets_status:
  assumes "skip_configuration (ch_pool ch)"
  shows "async_configure E ch t
           = (Inr (), ch\<lparr>status := CONFIGURED\<rparr>, t @ [Debug SkippingConfiguration])
       \<and> filter is_transport_call (drop (length t) (snd (snd (async_configure E ch t)))) = []
       \<and> status (fst (snd (async_configure E ch t))) = CONFIGURED"
  using assms by (simp add: async_configure_def)

text \<open>
  Witness for C5: a channel with two report entries in a pool that skips configuration.
\<close>

theorem skip_configuration_only_sets_status_witness:
  "skip_configuration (ch_pool (example_channel ZigbeeChannel two_reports example_cluster skipping_pool))
   \<and> snd (snd (async_configure example_env
         (example_channel ZigbeeChannel two_reports example_cluster skipping_pool) []))
       = [Debug SkippingConfiguration]
   \<and> status (fst (snd (async_configure example_env
         (example_channel ZigbeeChannel two_reports example_cluster skipping_pool) [])))
       = CONFIGURED"
proof -
  let ?ch = "example_channel ZigbeeChannel two_reports example_cluster skipping_pool"
  have h: "skip_configuration (ch_pool ?ch)"
    by (simp add: example_channel_def ZigbeeChannel_init_def skipping_pool_def)
  show ?thesis
    using skip_configuration_only_sets_status [OF h, of example_env "[]"] h by simp
qed

text \<open>
  C6: when the pool does not skip configuration, the transport calls and pauses of one
  \<^verbatim>\<open>async_configure\<close> are an initial part of the schedule (bind first; then, only for a
  server cluster, for every report entry in declared order its reporting call followed by a
  pause \<^verbatim>\<open>asyncio.sleep(uniform(0.1, 0.5))\<close>), and the whole schedule when the call returns.
\<close>

theorem async_configure_order:
  assumes "\<not> skip_configuration (ch_pool ch)"
  shows "\<exists>new. snd (snd (async_configure E ch t)) = t @ new
       \<and> prefix (filter is_paced new) (configure_schedule ch)
       \<and> (fst (async_configure E ch t) = Inr ()
            \<longrightarrow> filter is_paced new = configure_schedule ch)"
proof -
  obtain r t1 where b: "bind ch t = (r, t1)"
    by (cases "bind ch t")
  obtain es where es: "t1 = t @ ClusterBind # es" "filter is_paced es = []"
    using bind_trace [of ch t] b by auto
  show ?thesis
  proof (cases r)
    case (Inl ex)
    have "snd (snd (async_configure E ch t)) = t @ (ClusterBind # es)"
      using assms b Inl es by (simp add: async_configure_def)
    moreover have "prefix (filter is_paced (ClusterBind # es)) (configure_schedule ch)"
      using es(2) by (simp add: configure_schedule_def)
    moreover have "fst (async_configure E ch t) \<noteq> Inr ()"
      using assms b Inl by (simp add: async_configure_def)
    ultimately show ?thesis by blast
  next
    case (Inr u)
    show ?thesis
    proof (cases "is_server (cluster ch)")
      case False
      have "async_configure E ch t
              = (Inr (), ch\<lparr>status := CONFIGURED\<rparr>, t @ (ClusterBind # es @ [Debug FinishedConfiguration]))"
        using assms b Inr es False by (simp add: async_configure_def)
      moreover have "filter is_paced (ClusterBind # es @ [Debug FinishedConfiguration])
                       = configure_schedule ch"
        using es(2) False by (simp add: configure_schedule_def)
      ultimately show ?thesis
        by (metis fst_conv snd_conv prefix_order.order_refl)
    next
      case True
      obtain new where new: "snd (configure_loop E ch (report_config ch) t1) = t1 @ new"
        "prefix (filter is_paced new) (concat (map (reporting_step ch) (report_config ch)))"
        "fst (configure_loop E ch (report_config ch) t1) = Inr ()
           \<longrightarrow> filter is_paced new = concat (map (reporting_step ch) (report_config ch))"
        using configure_loop_trace [of E ch "report_config ch" t1] by blast
      obtain r2 t2 where l: "configure_loop E ch (report_config ch) t1 = (r2, t2)"
        by (cases "configure_loop E ch (report_config ch) t1")
      have t2: "t2 = t @ ClusterBind # es @ new"
        using new(1) l es(1) by simp
      show ?thesis
      proof (cases r2)
        case (Inl ex)
        have "snd (snd (async_configure E ch t)) = t @ (ClusterBind # es @ new)"
          using assms b Inr True l Inl t2 by (simp add: async_configure_def)
        moreover have "prefix (filter is_paced (ClusterBind # es @ new)) (configure_schedule ch)"
          using es(2) new(2) True by (simp add: configure_schedule_def)
        moreover have "fst (async_configure E ch t) \<noteq> Inr ()"
          using assms b Inr True l Inl by (simp add: async_configure_def)
        ultimately show ?thesis by blast
      next
        case (Inr u2)
        let ?new = "ClusterBind # es @ new @ [Debug FinishedConfiguration]"
        have "snd (snd (async_configure E ch t)) = t @ ?new"
          using assms b \<open>r = Inr u\<close> True l Inr t2 by (simp add: async_configure_def)
        moreover have f: "filter is_paced ?new = configure_schedule ch"
          using es(2) new(3) True l Inr by (simp add: configure_schedule_def)
        ultimately show ?thesis
          by (metis prefix_order.order_refl)
      qed
    qed
  qed
qed

text \<open>
  Witness for C6: two report entries on a server cluster of a device that answers.
\<close>

theorem async_configure_order_witness:
  "\<not> skip_configuration (ch_pool (example_channel ZigbeeChannel two_reports vendor_cluster example_pool))
   \<and> fst (async_configure example_env
            (example_channel ZigbeeChannel two_reports vendor_cluster example_pool) []) = Inr ()
   \<and> filter is_paced (snd (snd (async_configure example_env
            (example_channel ZigbeeChannel two_reports vendor_cluster example_pool) [])))
       = [ClusterBind,
          ClusterConfigureReporting (AttrId 0) 30 900 1 (Some 0x115F),
          SleepUniform (1 / 10) (1 / 2),
          ClusterConfigureReporting (AttrName ''level'') 1 60 5 (Some 0x115F),
          SleepUniform (1 / 10) (1 / 2)]"
proof -
  let ?ch = "example_channel ZigbeeChannel two_reports vendor_cluster example_pool"
  have h: "\<not> skip_configuration (ch_pool ?ch)"
    by (simp add: example_channel_def ZigbeeChannel_init_def example_pool_def)
  have r: "fst (async_configure example_env ?ch []) = Inr ()"
    by (simp add: async_configure_def bind_def configure_reporting_def Let_def
        example_channel_def ZigbeeChannel_init_def example_pool_def vendor_cluster_def
        example_cluster_def two_reports_def)
  have s: "configure_schedule ?ch
             = [ClusterBind,
                ClusterConfigureReporting (AttrId 0) 30 900 1 (Some 0x115F),
                SleepUniform (1 / 10) (1 / 2),
                ClusterConfigureReporting (AttrName ''level'') 1 60 5 (Some 0x115F),
                SleepUniform (1 / 10) (1 / 2)]"
    by (simp add: configure_schedule_def reporting_step_def
        example_channel_def ZigbeeChannel_init_def example_pool_def vendor_cluster_def
        example_cluster_def two_reports_def)
  from async_configure_order [OF h, of example_env "[]"] r s
  show ?thesis using h by auto
qed

text \<open>
  C7: \<^verbatim>\<open>configure_reporting\<close> and \<^verbatim>\<open>get_attribute_value\<close> each make one outbound
  call, and it carries a manufacturer code exactly when the cluster id is at least
  \<open>0xFC00\<close> and the pool's manufacturer code is truthy; the code carried is the pool's, and
  below \<open>0xFC00\<close> none is carried.
\<close>

theorem manufacturer_code_attached_iff_vendor_cluster:
  "\<exists>m. filter is_transport_call
           (drop (length t) (snd (configure_reporting E ch a (Some (mn, mx, chg)) t)))
         = [ClusterConfigureReporting a mn mx chg m]
     \<and> filter is_transport_call
           (drop (length t) (snd (get_attribute_value E ch a from_cache t)))
         = [SafeRead [a] from_cache from_cache m]
     \<and> (m \<noteq> None \<longleftrightarrow>
           cluster_id (cluster ch) \<ge> 0xFC00 \<and> truthy (manufacturer_code (ch_pool ch)))
     \<and> (m \<noteq> None \<longrightarrow> m = manufacturer_code (ch_pool ch))
     \<and> (cluster_id (cluster ch) < 0xFC00 \<longrightarrow> m = None)"
proof -
  let ?m = "if cluster_id (cluster ch) \<ge> 0xFC00 \<and> truthy (manufacturer_code (ch_pool ch))
            then manufacturer_code (ch_pool ch) else None"
  have 1: "filter is_transport_call
             (drop (length t) (snd (configure_reporting E ch a (Some (mn, mx, chg)) t)))
           = [ClusterConfigureReporting a mn mx chg ?m]"
    by (auto simp: configure_reporting_def Let_def split: sum.splits)
  have 2: "filter is_transport_call
             (drop (length t) (snd (get_attribute_value E ch a from_cache t)))
           = [SafeRead [a] from_cache from_cache ?m]"
    by (auto simp: get_attribute_value_def Let_def split: sum.splits)
  have 3: "?m \<noteq> None \<longleftrightarrow>
             cluster_id (cluster ch) \<ge> 0xFC00 \<and> truthy (manufacturer_code (ch_pool ch))"
    by (cases "manufacturer_code (ch_pool ch)") auto
  have 4: "?m \<noteq> None \<longrightarrow> ?m = manufacturer_code (ch_pool ch)"
    by simp
  have 5: "cluster_id (cluster ch) < 0xFC00 \<longrightarrow> ?m = None"
    by simp
  show ?thesis
    using 1 2 3 4 5 by blast
qed

text \<open>
  Witness for C7: cluster \<open>0xFC10\<close> carries the pool's code \<open>0x115F\<close>, cluster
  \<open>0x0006\<close> carries none although the pool has one.
\<close>

theorem manufacturer_code_attached_iff_vendor_cluster_witness:
  "filter is_transport_call (snd (configure_reporting example_env
       (example_channel ZigbeeChannel [] vendor_cluster example_pool)
       (AttrId 0) (Some (30, 900, 1)) []))
     = [ClusterConfigureReporting (AttrId 0) 30 900 1 (Some 0x115F)]
   \<and> filter is_transport_call (snd (configure_reporting example_env
       (example_channel ZigbeeChannel [] example_cluster example_pool)
       (AttrId 0) (Some (30, 900, 1)) []))
     = [ClusterConfigureReporting (AttrId 0) 30 900 1 None]
   \<and> filter is_transport_call (snd (get_attribute_value example_env
       (example_channel ZigbeeChannel [] example_cluster example_pool) (AttrId 0) True []))
     = [SafeRead [AttrId 0] True True None]"
proof -
  let ?v = "example_channel ZigbeeChannel [] vendor_cluster example_pool"
  let ?s = "example_channel ZigbeeChannel [] example_cluster example_pool"
  have v: "cluster_id (cluster ?v) = 0xFC10" "manufacturer_code (ch_pool ?v) = Some 0x115F"
    by (simp_all add: example_channel_def ZigbeeChannel_init_def vendor_cluster_def
        example_cluster_def example_pool_def)
  have s: "cluster_id (cluster ?s) = 6" "manufacturer_code (ch_pool ?s) = Some 0x115F"
    by (simp_all add: example_channel_def ZigbeeChannel_init_def
        example_cluster_def example_pool_def)
  from manufacturer_code_attached_iff_vendor_cluster
         [of "[]" example_env ?v "AttrId 0" 30 900 1 True]
  have a: "filter is_transport_call (snd (configure_reporting example_env ?v
             (AttrId 0) (Some (30, 900, 1)) []))
           = [ClusterConfigureReporting (AttrId 0) 30 900 1 (Some 0x115F)]"
    using v by auto
  from manufacturer_code_attached_iff_vendor_cluster
         [of "[]" example_env ?s "AttrId 0" 30 900 1 True]
  have b: "filter is_transport_call (snd (configure_reporting example_env ?s
             (AttrId 0) (Some (30, 900, 1)) []))
           = [ClusterConfigureReporting (AttrId 0) 30 900 1 None]
         \<and> filter is_transport_call (snd (get_attribute_value example_env ?s (AttrId 0) True []))
           = [SafeRead [AttrId 0] True True None]"
    using s by auto
  show ?thesis using a b by blast
qed

text \<open>
  C8: on an attribute-listening channel, \<^verbatim>\<open>attribute_updated(attrid, value)\<close> sends
  exactly one signal, named by the channel's unique id followed by
  \<^verbatim>\<open>_attribute_updated\<close> and carrying the value, when \<open>attrid\<close> is the channel's
  \<open>value_attribute\<close>, and does nothing otherwise.
\<close>

theorem listening_channel_signals_its_attribute:
  assumes "kind ch = AttributeListeningChannel"
  shows "attribute_updated E ch attrid v t
           = (Inr (),
              t @ (if value_attribute ch = Some attrid
                   then [SendSignal (unique_id ch @ ''_attribute_updated'') [v]]
                   else []))"
  using assms
  by (auto simp: attribute_updated_def AttributeListeningChannel_attribute_updated_def
      async_send_signal_def SIGNAL_ATTR_UPDATED_def)

text \<open>
  Witness for C8: a channel that listens to attribute \<open>0x0020\<close> receives
  \<open>(0x0020, 42)\<close> and \<open>(0x0021, 99)\<close>.
\<close>

theorem listening_channel_signals_its_attribute_witness:
  "kind listening_channel = AttributeListeningChannel
   \<and> value_attribute listening_channel = Some 0x0020
   \<and> attribute_updated example_env listening_channel 0x0020 (PInt 42) []
       = (Inr (), [SendSignal ''00:0d:6f:00:0a:90:69:e7:1:0x0006_attribute_updated'' [PInt 42]])
   \<and> attribute_updated example_env listening_channel 0x0021 (PInt 99) [] = (Inr (), [])"
proof -
  have k: "kind listening_channel = AttributeListeningChannel"
    by (simp add: listening_channel_def AttributeListeningChannel_init_def ZigbeeChannel_init_def)
  have va: "value_attribute listening_channel = Some 0x0020"
    by (simp add: listening_channel_def AttributeListeningChannel_init_def ZigbeeChannel_init_def)
  have u: "unique_id listening_channel = ''00:0d:6f:00:0a:90:69:e7:1:0x0006''"
    by (simp add: listening_channel_def AttributeListeningChannel_init_def ZigbeeChannel_init_def
        example_pool_def example_cluster_def replace_dash_def format_04x_def hex_of.simps
        hex_digit_def numeral_3_eq_3)
  show ?thesis
    using listening_channel_signals_its_attribute [OF k, of example_env "0x0020" "PInt 42" "[]"]
          listening_channel_signals_its_attribute [OF k, of example_env "0x0021" "PInt 99" "[]"]
          k va u
    by simp
qed

text \<open>
  C9: on an event relay whose cluster has a table of server commands,
  \<^verbatim>\<open>cluster_command(tsn, command_id, args)\<close> sends exactly one event with the command's
  name and the arguments when the table has the command id, and nothing, without an
  error, when it has not.
\<close>

theorem relay_sends_known_commands:
  assumes "kind ch = EventRelayChannel"
      and "server_commands (cluster ch) = Some cmds"
  shows "cluster_command ch tsn command_id args t
           = (Inr (),
              t @ (case cmds command_id of
                     Some c \<Rightarrow> [ZhaSendEvent (unique_id ch) (cluster_id (cluster ch)) (fst c) args]
                   | None \<Rightarrow> []))"
  using assms
  by (auto simp: cluster_command_def EventRelayChannel_cluster_command_def zha_send_event_def
      split: option.splits)

text \<open>
  Witness for C9: command id 5 is \<open>toggle\<close> in the table, command id 9 is not there.
\<close>

theorem relay_sends_known_commands_witness:
  "kind (relay_channel example_cluster) = EventRelayChannel
   \<and> cluster_command (relay_channel example_cluster) 1 5 (PList [PInt 7]) []
       = (Inr (), [ZhaSendEvent ''00:0d:6f:00:0a:90:69:e7:1:0x0006'' 6 ''toggle'' (PList [PInt 7])])
   \<and> cluster_command (relay_channel example_cluster) 1 9 (PList [PInt 7]) [] = (Inr (), [])"
proof -
  let ?ch = "relay_channel example_cluster"
  have k: "kind ?ch = EventRelayChannel"
    by (simp add: relay_channel_def EventRelayChannel_init_def ZigbeeChannel_init_def)
  have c: "server_commands (cluster ?ch) = Some [5 \<mapsto> (''toggle'', PNone)]"
    by (simp add: relay_channel_def EventRelayChannel_init_def ZigbeeChannel_init_def
        example_cluster_def)
  have i: "cluster_id (cluster ?ch) = 6"
    by (simp add: relay_channel_def EventRelayChannel_init_def ZigbeeChannel_init_def
        example_cluster_def)
  have u: "unique_id ?ch = ''00:0d:6f:00:0a:90:69:e7:1:0x0006''"
    by (simp add: relay_channel_def EventRelayChannel_init_def ZigbeeChannel_init_def
        example_pool_def example_cluster_def replace_dash_def format_04x_def hex_of.simps
        hex_digit_def numeral_3_eq_3)
  show ?thesis
    using relay_sends_known_commands [OF k c, of 1 5 "PList [PInt 7]" "[]"]
          relay_sends_known_commands [OF k c, of 1 9 "PList [PInt 7]" "[]"]
          k i u
    by simp
qed

text \<open>
  C10: on an event relay whose cluster has no table of server commands (\<^verbatim>\<open>None\<close>),
  \<^verbatim>\<open>cluster_command\<close> sends nothing and raises nothing.
\<close>

theorem relay_without_table_is_silent:
  assumes "kind ch = EventRelayChannel"
      and "server_commands (cluster ch) = None"
  shows "cluster_command ch tsn command_id args t = (Inr (), t)"
  using assms
  by (simp add: cluster_command_def EventRelayChannel_cluster_command_def)

text \<open>
  Witness for C10: the example cluster with its table removed.
\<close>

theorem relay_without_table_is_silent_witness:
  "kind (relay_channel tableless_cluster) = EventRelayChannel
   \<and> server_commands (cluster (relay_channel tableless_cluster)) = None
   \<and> cluster_command (relay_channel tableless_cluster) 1 5 (PList [PInt 7]) [] = (Inr (), [])"
proof -
  let ?ch = "relay_channel tableless_cluster"
  have k: "kind ?ch = EventRelayChannel"
    by (simp add: relay_channel_def EventRelayChannel_init_def ZigbeeChannel_init_def)
  have c: "server_commands (cluster ?ch) = None"
    by (simp add: relay_channel_def EventRelayChannel_init_def ZigbeeChannel_init_def
        tableless_cluster_def)
  show ?thesis
    using relay_without_table_is_silent [OF k c, of 1 5 "PList [PInt 7]" "[]"] k c by simp
qed

end
